theory Spec2Isabelle
  imports Complex_Main "HOL-Library.Log_Nat" "HOL-Library.AList" "HOL-Library.Sublist"
begin

section \<open>Python values\<close>

text \<open>
  The TurnBack harness is Python. Its functions exchange floats, strings, lists and
  dictionaries typed \<open>Dict[str, Any]\<close>, and they can raise. The embedding keeps
  all of that explicit: a raised exception is the \<open>Inl\<close> branch of a result,
  a \<open>float\<close> is an IEEE 754 binary64 value, and a dictionary is an association
  list in insertion order. Writing to the log does not influence any returned value and is
  left out; building a log message does count where it formats a value of unknown type,
  because formatting can raise. The other log messages format a string, a model name or a
  length, which cannot fail.
\<close>

datatype error =
  IndexError | KeyError | ValueError | TypeError | AttributeError | ZeroDivisionError
| OverflowError

definition bind :: "error + 'a \<Rightarrow> ('a \<Rightarrow> error + 'b) \<Rightarrow> error + 'b" where
  "bind m f = (case m of Inl e \<Rightarrow> Inl e | Inr x \<Rightarrow> f x)"

subsection \<open>Binary64 floats\<close>

text \<open>
  A finite double is identified with the rational number it denotes (the two zeros are
  not told apart; Python's \<open>==\<close> does not tell them apart either). Every basic
  operation of IEEE 754 returns the exact result rounded to the nearest double, ties to
  the even mantissa; \<open>round_to_double\<close> is that rounding, with the subnormal range
  below \<open>2 ^ -1022\<close> and overflow to infinity.
\<close>

datatype pyfloat = Finite rat | PosInf | NegInf | NaN

definition pow2 :: "int \<Rightarrow> rat" where
  "pow2 e = (if 0 \<le> e then 2 ^ nat e else 1 / 2 ^ nat (- e))"

definition round_half_even :: "rat \<Rightarrow> int" where
  "round_half_even x =
     (let f = \<lfloor>x\<rfloor>; d = x - of_int f
      in if d < 1 / 2 then f
         else if 1 / 2 < d then f + 1
         else if even f then f else f + 1)"

text \<open>\<open>binade x\<close> is the exponent \<open>e\<close> with \<open>2 ^ e \<le> \<bar>x\<bar> < 2 ^ (e + 1)\<close>, for \<open>x \<noteq> 0\<close>.\<close>

definition binade :: "rat \<Rightarrow> int" where
  "binade x =
     (let a = \<bar>x\<bar>;
          d = bitlen (fst (quotient_of a)) - bitlen (snd (quotient_of a))
      in if pow2 d \<le> a then d else d - 1)"

definition round_to_double :: "rat \<Rightarrow> pyfloat" where
  "round_to_double x =
     (if x = 0 then Finite 0
      else let e = binade x;
               u = pow2 (max e (- 1022) - 52);
               m = round_half_even (\<bar>x\<bar> / u)
           in if 1023 < e \<or> (e = 1023 \<and> m = 2 ^ 53)
              then (if 0 < x then PosInf else NegInf)
              else Finite (sgn x * (of_int m * u)))"

text \<open>A decimal literal of the source text denotes the double nearest to it.\<close>

definition float_lit :: "rat \<Rightarrow> pyfloat" where
  "float_lit q = round_to_double q"

fun float_neg :: "pyfloat \<Rightarrow> pyfloat" where
  "float_neg (Finite a) = Finite (- a)"
| "float_neg PosInf = NegInf"
| "float_neg NegInf = PosInf"
| "float_neg NaN = NaN"

fun float_add :: "pyfloat \<Rightarrow> pyfloat \<Rightarrow> pyfloat" where
  "float_add (Finite a) (Finite b) = round_to_double (a + b)"
| "float_add NaN _ = NaN"
| "float_add _ NaN = NaN"
| "float_add PosInf NegInf = NaN"
| "float_add NegInf PosInf = NaN"
| "float_add PosInf _ = PosInf"
| "float_add NegInf _ = NegInf"
| "float_add _ PosInf = PosInf"
| "float_add _ NegInf = NegInf"

definition float_sub :: "pyfloat \<Rightarrow> pyfloat \<Rightarrow> pyfloat" where
  "float_sub x y = float_add x (float_neg y)"

text \<open>The sign of an infinite or zero operand, as far as multiplication needs it.\<close>

fun float_sign :: "pyfloat \<Rightarrow> int" where
  "float_sign (Finite a) = (if a < 0 then - 1 else if a = 0 then 0 else 1)"
| "float_sign PosInf = 1"
| "float_sign NegInf = - 1"
| "float_sign NaN = 0"

fun float_mul :: "pyfloat \<Rightarrow> pyfloat \<Rightarrow> pyfloat" where
  "float_mul (Finite a) (Finite b) = round_to_double (a * b)"
| "float_mul NaN _ = NaN"
| "float_mul _ NaN = NaN"
| "float_mul x y =
     (let s = float_sign x * float_sign y
      in if s = 0 then NaN else if 0 < s then PosInf else NegInf)"

text \<open>
  Python's true division of floats raises \<open>ZeroDivisionError\<close> on a zero divisor
  instead of returning an infinity or a NaN.
\<close>

fun float_truediv :: "pyfloat \<Rightarrow> pyfloat \<Rightarrow> error + pyfloat" where
  "float_truediv (Finite a) (Finite b) =
     (if b = 0 then Inl ZeroDivisionError else Inr (round_to_double (a / b)))"
| "float_truediv NaN (Finite b) = (if b = 0 then Inl ZeroDivisionError else Inr NaN)"
| "float_truediv x (Finite b) =
     (if b = 0 then Inl ZeroDivisionError
      else Inr (if 0 < float_sign x * float_sign (Finite b) then PosInf else NegInf))"
| "float_truediv _ NaN = Inr NaN"
| "float_truediv (Finite a) _ = Inr (Finite 0)"
| "float_truediv _ _ = Inr NaN"

text \<open>\<open>x > y\<close> on floats: every comparison with a NaN is false.\<close>

fun float_gt :: "pyfloat \<Rightarrow> pyfloat \<Rightarrow> bool" where
  "float_gt NaN _ = False"
| "float_gt _ NaN = False"
| "float_gt (Finite a) (Finite b) = (b < a)"
| "float_gt PosInf y = (y \<noteq> PosInf)"
| "float_gt x NegInf = (x \<noteq> NegInf)"
| "float_gt _ _ = False"

text \<open>
  An \<open>int\<close> that meets a float in an arithmetic operation is converted first, to
  the nearest double; an integer beyond the range of doubles raises
  \<open>OverflowError\<close>.
\<close>

definition float_of_int :: "int \<Rightarrow> error + pyfloat" where
  "float_of_int i =
     (case round_to_double (of_int i) of
        Finite a \<Rightarrow> Inr (Finite a)
      | _ \<Rightarrow> Inl OverflowError)"

text \<open>
  \<open>round(x, ndigits)\<close> for \<open>ndigits \<ge> 0\<close>: the exact value of \<open>x\<close> is
  rounded to that many decimals, ties to even, and the decimal is read back as a double.
  Infinities and NaN round to themselves.
\<close>

fun float_round :: "pyfloat \<Rightarrow> nat \<Rightarrow> pyfloat" where
  "float_round (Finite a) ndigits =
     round_to_double (of_int (round_half_even (a * 10 ^ ndigits)) / 10 ^ ndigits)"
| "float_round x _ = x"

subsection \<open>Dynamically typed values\<close>

datatype pyvalue =
  PyNone
| PyBool bool
| PyInt int
| PyFloat pyfloat
| PyStr string
| PyList "pyvalue list"
| PyDict "(string \<times> pyvalue) list"

type_synonym pydict = "(string \<times> pyvalue) list"

text \<open>\<open>d.get(key, default)\<close> and \<open>d[key] = value\<close>.\<close>

definition dict_get :: "pydict \<Rightarrow> string \<Rightarrow> pyvalue \<Rightarrow> pyvalue" where
  "dict_get d k dflt = (case map_of d k of None \<Rightarrow> dflt | Some v \<Rightarrow> v)"

definition dict_set :: "pydict \<Rightarrow> string \<Rightarrow> pyvalue \<Rightarrow> pydict" where
  "dict_set d k v = AList.update k v d"

text \<open>The operand of a float operation: numbers are accepted, anything else is a \<open>TypeError\<close>.\<close>

fun to_float :: "pyvalue \<Rightarrow> error + pyfloat" where
  "to_float (PyFloat x) = Inr x"
| "to_float (PyInt i) = float_of_int i"
| "to_float (PyBool b) = Inr (Finite (if b then 1 else 0))"
| "to_float _ = Inl TypeError"

text \<open>
  \<open>int / int\<close> is the exact quotient rounded once; it raises
  \<open>OverflowError\<close> when that is too large for a double.
\<close>

definition int_truediv :: "int \<Rightarrow> int \<Rightarrow> error + pyfloat" where
  "int_truediv a b =
     (if b = 0 then Inl ZeroDivisionError
      else case round_to_double (of_int a / of_int b) of
             Finite q \<Rightarrow> Inr (Finite q)
           | _ \<Rightarrow> Inl OverflowError)"

text \<open>\<open>v / n\<close> for a value \<open>v\<close> of any type and an \<open>int\<close> \<open>n\<close>.\<close>

fun truediv_int :: "pyvalue \<Rightarrow> int \<Rightarrow> error + pyfloat" where
  "truediv_int (PyFloat x) n = bind (float_of_int n) (float_truediv x)"
| "truediv_int (PyInt i) n = int_truediv i n"
| "truediv_int (PyBool b) n = int_truediv (if b then 1 else 0) n"
| "truediv_int _ _ = Inl TypeError"

text \<open>\<open>list.index(x)\<close>: the first position of \<open>x\<close>, or \<open>ValueError\<close>.\<close>

fun list_index :: "'a list \<Rightarrow> 'a \<Rightarrow> error + nat" where
  "list_index [] x = Inl ValueError"
| "list_index (y # ys) x =
     (if y = x then Inr 0 else bind (list_index ys x) (\<lambda>n. Inr (Suc n)))"


section \<open>The route data model (\<open>dataset.py\<close>)\<close>

record RoutePoint =
  latitude :: pyfloat
  longitude :: pyfloat
  timestamp :: "string option"
  metadata :: "pydict option"

record Route =
  route_id :: string
  points :: "RoutePoint list"
  start_point :: RoutePoint
  end_point :: RoutePoint
  difficulty :: string
  region :: string
  metadata :: "pydict option"

record RouteDataset =
  routes :: "Route list"

text \<open>\<open>RouteDataset.__len__\<close>\<close>

definition len :: "RouteDataset \<Rightarrow> nat" where
  "len self = length (routes self)"

text \<open>
  \<open>RouteDataset.__getitem__\<close> is \<open>self.routes[idx]\<close>: list indexing, where a
  negative index counts from the end and an index outside \<open>-n .. n - 1\<close> raises
  \<open>IndexError\<close>. Nothing in the method catches it.
\<close>

definition getitem :: "RouteDataset \<Rightarrow> int \<Rightarrow> error + Route" where
  "getitem self idx =
     (let n = int (length (routes self))
      in if idx < - n \<or> n \<le> idx then Inl IndexError
         else if idx < 0 then Inr (routes self ! nat (n + idx))
         else Inr (routes self ! nat idx))"

definition filter_by_difficulty :: "RouteDataset \<Rightarrow> string \<Rightarrow> RouteDataset" where
  "filter_by_difficulty self d =
     (let filtered_routes = [route \<leftarrow> routes self. difficulty route = d]
      in \<lparr>routes = filtered_routes\<rparr>)"

definition filter_by_region :: "RouteDataset \<Rightarrow> string \<Rightarrow> RouteDataset" where
  "filter_by_region self rg =
     (let filtered_routes = [route \<leftarrow> routes self. region route = rg]
      in \<lparr>routes = filtered_routes\<rparr>)"


text \<open>
  \<open>get_statistics\<close> builds each distribution by a dict comprehension over
  \<open>set(...)\<close>. Python leaves the iteration order of a set open; the model lists the
  distinct values in the order \<open>remdups\<close> gives, and nothing below depends on it.
\<close>

definition distribution :: "string list \<Rightarrow> pydict" where
  "distribution xs = map (\<lambda>x. (x, PyInt (int (count_list xs x)))) (remdups xs)"

definition get_statistics :: "RouteDataset \<Rightarrow> pydict" where
  "get_statistics self =
     (let difficulties = [difficulty route. route \<leftarrow> routes self];
          regions = [region route. route \<leftarrow> routes self]
      in [(''total_routes'', PyInt (int (length (routes self)))),
          (''difficulty_distribution'', PyDict (distribution difficulties)),
          (''region_distribution'', PyDict (distribution regions))])"

subsection \<open>\<open>load_dataset\<close>\<close>

text \<open>\<open>f"{i:03d}"\<close> for the non-negative \<open>i\<close> that \<open>range\<close> yields.\<close>

fun str_nat :: "nat \<Rightarrow> string" where
  "str_nat n =
     (if n < 10 then [''0123456789'' ! n]
      else str_nat (n div 10) @ [''0123456789'' ! (n mod 10)])"

declare str_nat.simps [simp del]

definition format_03d :: "nat \<Rightarrow> string" where
  "format_03d i = replicate (3 - length (str_nat i)) CHR ''0'' @ str_nat i"

text \<open>The body of the loop \<open>for i in range(10)\<close>: the route appended in round \<open>i\<close>.\<close>

definition sample_route :: "nat \<Rightarrow> error + Route" where
  "sample_route i =
     bind (float_of_int (int i)) (\<lambda>fi.
       let start_point = \<lparr>latitude = float_add (float_lit (407128 / 10000)) (float_mul fi (float_lit (1 / 100))),
                          longitude = float_add (float_neg (float_lit (740060 / 10000))) (float_mul fi (float_lit (1 / 100))),
                          timestamp = None, RoutePoint.metadata = None\<rparr>;
           end_point = \<lparr>latitude = float_add (float_lit (407228 / 10000)) (float_mul fi (float_lit (1 / 100))),
                        longitude = float_add (float_neg (float_lit (740160 / 10000))) (float_mul fi (float_lit (1 / 100))),
                        timestamp = None, RoutePoint.metadata = None\<rparr>
       in Inr \<lparr>route_id = ''route_'' @ format_03d i,
               points = [start_point, end_point],
               start_point = start_point,
               end_point = end_point,
               difficulty = [''easy'', ''medium'', ''hard''] ! (i mod 3),
               region = ''New York'',
               metadata = Some [(''sample'', PyBool True)]\<rparr>)"

fun sample_loop :: "nat list \<Rightarrow> Route list \<Rightarrow> error + Route list" where
  "sample_loop [] sample_routes = Inr sample_routes"
| "sample_loop (i # is) sample_routes =
     bind (sample_route i) (\<lambda>route. sample_loop is (sample_routes @ [route]))"

definition load_dataset :: "string \<Rightarrow> string option \<Rightarrow> error + RouteDataset" where
  "load_dataset dataset_name data_path =
     bind (sample_loop [0..<10] []) (\<lambda>sample_routes. Inr \<lparr>routes = sample_routes\<rparr>)"


section \<open>Models (\<open>models.py\<close>)\<close>

text \<open>
  The two concrete subclasses of \<open>BaseModel\<close>. An \<open>LLMModel\<close> carries its
  name, the optional API key and the keyword configuration; a
  \<open>HumanBaselineModel\<close> has the fixed name.
\<close>

datatype model = LLMModel string "string option" pydict | HumanBaselineModel

fun model_name :: "model \<Rightarrow> string" where
  "model_name (LLMModel name api_key config) = name"
| "model_name HumanBaselineModel = ''human_baseline''"

text \<open>
  \<open>v.get(key)\<close> on a value of unknown type: only a dictionary has the method, and a
  missing key gives \<open>None\<close>.
\<close>

fun value_get :: "pyvalue \<Rightarrow> string \<Rightarrow> error + pyvalue" where
  "value_get (PyDict d) k = Inr (dict_get d k PyNone)"
| "value_get _ k = Inl AttributeError"

text \<open>
  An f-string is kept as the sequence of its parts: literal text, and values formatted by
  Python's built-in \<open>format\<close>, which is not code of this repository. Formatting
  \<open>None\<close>, a \<open>bool\<close>, a \<open>float\<close> or a \<open>str\<close> always gives a string.
  Formatting an \<open>int\<close>, a list or a dictionary can raise, and whether it does depends
  on the interpreter: an \<open>int\<close> of more than 4300 digits raises \<open>ValueError\<close>
  under the default of Python 3.11 and never under Python 3.8, and a list nested beyond
  the recursion limit raises \<open>RecursionError\<close>. The interpreter's part is the
  parameter \<open>faults\<close>: the exception that formatting a value raises, if any.
\<close>

datatype fragment = Text string | Formatted pyvalue

type_synonym fstring = "fragment list"

fun format_value :: "(pyvalue \<rightharpoonup> error) \<Rightarrow> pyvalue \<Rightarrow> error + fragment" where
  "format_value faults PyNone = Inr (Formatted PyNone)"
| "format_value faults (PyBool b) = Inr (Formatted (PyBool b))"
| "format_value faults (PyFloat x) = Inr (Formatted (PyFloat x))"
| "format_value faults (PyStr s) = Inr (Formatted (PyStr s))"
| "format_value faults v = (case faults v of None \<Rightarrow> Inr (Formatted v) | Some e \<Rightarrow> Inl e)"

definition nl :: string where
  "nl = [CHR 0x0A]"

text \<open>
  \<open>prepare_input\<close>. The replacement fields of the f-string are evaluated and
  formatted one after the other, so the first lookup or formatting that raises decides
  the exception.
\<close>

fun prepare_input :: "(pyvalue \<rightharpoonup> error) \<Rightarrow> model \<Rightarrow> pydict \<Rightarrow> error + fstring" where
  "prepare_input faults (LLMModel name api_key config) route_data =
     (let start_point = dict_get route_data ''start_point'' (PyDict []);
          end_point = dict_get route_data ''end_point'' (PyDict [])
      in bind (value_get start_point ''latitude'') (\<lambda>slat.
         bind (format_value faults slat) (\<lambda>f1.
         bind (value_get start_point ''longitude'') (\<lambda>slon.
         bind (format_value faults slon) (\<lambda>f2.
         bind (value_get end_point ''latitude'') (\<lambda>elat.
         bind (format_value faults elat) (\<lambda>f3.
         bind (value_get end_point ''longitude'') (\<lambda>elon.
         bind (format_value faults elon) (\<lambda>f4.
           Inr [Text (nl
                  @ ''You are an expert in geospatial navigation and route planning. ''
                  @ ''Given the following information about a route, please determine ''
                  @ ''the most likely path taken.'' @ nl @ nl
                  @ ''Start Point: Latitude ''),
                f1, Text '', Longitude '', f2,
                Text (nl @ ''End Point: Latitude ''),
                f3, Text '', Longitude '', f4,
                Text (nl @ nl
                  @ ''Task: Work backwards from the destination to determine the route that ''
                  @ ''was most likely taken to reach this endpoint from the starting point.''
                  @ nl @ nl
                  @ ''Please provide:'' @ nl
                  @ ''1. A step-by-step description of the likely route'' @ nl
                  @ ''2. Key intermediate waypoints or landmarks'' @ nl
                  @ ''3. Your confidence level (0-1)'' @ nl
                  @ ''4. Reasoning for your route choice'' @ nl @ nl
                  @ ''Response:'')])))))))))"
| "prepare_input faults HumanBaselineModel route_data =
     Inr [Text ''Human annotation task description'']"

text \<open>
  \<open>predict\<close>. \<open>LLMModel.predict\<close> builds the prompt first and drops it, and
  before it returns it builds the message of \<open>logger.debug\<close>, an f-string that
  formats \<open>route_data.get('route_id', 'unknown')\<close> whatever the log level is. An
  exception raised by either leaves \<open>predict\<close>.
  \<open>HumanBaselineModel.predict\<close> does neither.
\<close>

fun predict :: "(pyvalue \<rightharpoonup> error) \<Rightarrow> model \<Rightarrow> pydict \<Rightarrow> error + pydict" where
  "predict faults (LLMModel name api_key config) route_data =
     bind (prepare_input faults (LLMModel name api_key config) route_data) (\<lambda>prompt.
       let prediction = [(''predicted_route'', PyStr ''Sample prediction''),
                         (''confidence'', PyFloat (float_lit (85 / 100))),
                         (''reasoning'', PyStr ''This is a placeholder reasoning''),
                         (''intermediate_points'', PyList [])]
       in bind (format_value faults (dict_get route_data ''route_id'' (PyStr ''unknown'')))
            (\<lambda>logged. Inr prediction))"
| "predict faults HumanBaselineModel route_data =
     Inr [(''predicted_route'', PyStr ''Human baseline prediction''),
          (''confidence'', PyFloat (float_lit (90 / 100))),
          (''reasoning'', PyStr ''Human expert analysis''),
          (''intermediate_points'', PyList [])]"

section \<open>The evaluator (\<open>evaluation.py\<close>)\<close>

record RouteEvaluator =
  config :: pydict
  metrics :: "string list"

text \<open>\<open>RouteEvaluator.__init__\<close>\<close>

definition init_RouteEvaluator :: "pydict \<Rightarrow> RouteEvaluator" where
  "init_RouteEvaluator cfg =
     \<lparr>config = cfg,
      metrics = [''accuracy'', ''spatial_accuracy'', ''semantic_similarity'',
                 ''route_deviation'', ''landmark_recognition'']\<rparr>"

text \<open>
  The methods whose Python names begin with an underscore keep their names without it.
\<close>

definition point_to_dict :: "RoutePoint \<Rightarrow> pyvalue" where
  "point_to_dict p =
     PyDict [(''latitude'', PyFloat (latitude p)), (''longitude'', PyFloat (longitude p))]"

definition route_to_dict :: "RouteEvaluator \<Rightarrow> Route \<Rightarrow> pydict" where
  "route_to_dict self route =
     [(''route_id'', PyStr (route_id route)),
      (''start_point'', point_to_dict (start_point route)),
      (''end_point'', point_to_dict (end_point route)),
      (''difficulty'', PyStr (difficulty route)),
      (''region'', PyStr (region route)),
      (''points'', PyList [point_to_dict p. p \<leftarrow> points route])]"

definition compute_accuracy :: "RouteEvaluator \<Rightarrow> pydict list \<Rightarrow> Route list \<Rightarrow> pyfloat" where
  "compute_accuracy self predictions ground_truths = float_lit (75 / 100)"

definition compute_spatial_accuracy :: "RouteEvaluator \<Rightarrow> pydict list \<Rightarrow> Route list \<Rightarrow> pyfloat" where
  "compute_spatial_accuracy self predictions ground_truths = float_lit (68 / 100)"

definition compute_route_deviation :: "RouteEvaluator \<Rightarrow> pydict list \<Rightarrow> Route list \<Rightarrow> pyfloat" where
  "compute_route_deviation self predictions ground_truths = float_lit (25 / 10)"

definition compute_semantic_similarity :: "RouteEvaluator \<Rightarrow> pydict list \<Rightarrow> Route list \<Rightarrow> pyfloat" where
  "compute_semantic_similarity self predictions ground_truths = float_lit (72 / 100)"


text \<open>\<open>d[key]\<close> on a dictionary raises \<open>KeyError\<close> for a missing key.\<close>

definition subscript :: "(string \<times> 'v) list \<Rightarrow> string \<Rightarrow> error + 'v" where
  "subscript d k = (case map_of d k of None \<Rightarrow> Inl KeyError | Some v \<Rightarrow> Inr v)"

text \<open>\<open>w * v\<close> for a float \<open>w\<close> and a value \<open>v\<close> of any type.\<close>

definition float_times :: "pyfloat \<Rightarrow> pyvalue \<Rightarrow> error + pyfloat" where
  "float_times w v = bind (to_float v) (\<lambda>x. Inr (float_mul w x))"

text \<open>
  \<open>max(0, x)\<close> for a float \<open>x\<close>: the first argument, the \<open>int\<close> zero, stays
  unless \<open>x > 0\<close>.
\<close>

definition max_0 :: "pyfloat \<Rightarrow> pyvalue" where
  "max_0 x = (if float_gt x (Finite 0) then PyFloat x else PyInt 0)"

text \<open>
  The loop of \<open>compute_by_difficulty\<close> over the remaining difficulties, with the
  dictionary built so far.
\<close>

fun by_difficulty_loop ::
  "string list \<Rightarrow> RouteDataset \<Rightarrow> string list \<Rightarrow> pydict \<Rightarrow> error + pydict" where
  "by_difficulty_loop difficulties dataset [] by_difficulty = Inr by_difficulty"
| "by_difficulty_loop difficulties dataset (d # rest) by_difficulty =
     (let filtered_dataset = filter_by_difficulty dataset d
      in if 0 < len filtered_dataset
         then bind (list_index difficulties d) (\<lambda>idx.
              bind (float_times (float_lit (15 / 100)) (PyInt (int idx))) (\<lambda>penalty.
                by_difficulty_loop difficulties dataset rest
                  (dict_set by_difficulty d
                     (PyDict [(''accuracy'', PyFloat (float_sub (float_lit (80 / 100)) penalty)),
                              (''count'', PyInt (int (len filtered_dataset)))]))))
         else by_difficulty_loop difficulties dataset rest
                (dict_set by_difficulty d
                   (PyDict [(''accuracy'', PyFloat (float_lit 0)), (''count'', PyInt 0)])))"

definition compute_by_difficulty ::
  "RouteEvaluator \<Rightarrow> model \<Rightarrow> RouteDataset \<Rightarrow> pydict list \<Rightarrow> Route list \<Rightarrow> error + pydict" where
  "compute_by_difficulty self model dataset predictions ground_truths =
     (let difficulties = [''easy'', ''medium'', ''hard'']
      in by_difficulty_loop difficulties dataset difficulties [])"

definition compute_overall_score :: "RouteEvaluator \<Rightarrow> pydict \<Rightarrow> error + pyfloat" where
  "compute_overall_score self mets =
     (let weights = [(''accuracy'', float_lit (3 / 10)),
                     (''spatial_accuracy'', float_lit (3 / 10)),
                     (''semantic_similarity'', float_lit (2 / 10)),
                     (''route_deviation_normalized'', float_lit (2 / 10))]
      in bind (truediv_int (dict_get mets ''route_deviation'' (PyInt 5)) 10) (\<lambda>q.
         let route_dev_norm = max_0 (float_sub (Finite 1) q)
         in bind (subscript weights ''accuracy'') (\<lambda>w1.
            bind (float_times w1 (dict_get mets ''accuracy'' (PyInt 0))) (\<lambda>t1.
            bind (subscript weights ''spatial_accuracy'') (\<lambda>w2.
            bind (float_times w2 (dict_get mets ''spatial_accuracy'' (PyInt 0))) (\<lambda>t2.
            bind (subscript weights ''semantic_similarity'') (\<lambda>w3.
            bind (float_times w3 (dict_get mets ''semantic_similarity'' (PyInt 0))) (\<lambda>t3.
            bind (subscript weights ''route_deviation_normalized'') (\<lambda>w4.
            bind (float_times w4 route_dev_norm) (\<lambda>t4.
              let score = float_add (float_add (float_add t1 t2) t3) t4
              in Inr (float_round score 3)))))))))))"

text \<open>The loop of \<open>evaluate\<close> that asks the model for one prediction per route.\<close>

fun predict_loop ::
  "(pyvalue \<rightharpoonup> error) \<Rightarrow> RouteEvaluator \<Rightarrow> model \<Rightarrow> Route list \<Rightarrow> pydict list
     \<Rightarrow> Route list \<Rightarrow> error + (pydict list \<times> Route list)" where
  "predict_loop faults self model [] predictions ground_truths =
     Inr (predictions, ground_truths)"
| "predict_loop faults self model (route # rest) predictions ground_truths =
     (let route_data = route_to_dict self route
      in bind (predict faults model route_data) (\<lambda>prediction.
           predict_loop faults self model rest (predictions @ [prediction])
             (ground_truths @ [route])))"

text \<open>\<open>results["metrics"][key] = v\<close>\<close>

definition set_metric :: "pydict \<Rightarrow> string \<Rightarrow> pyvalue \<Rightarrow> error + pydict" where
  "set_metric results k v =
     bind (subscript results ''metrics'') (\<lambda>m.
       case m of
         PyDict d \<Rightarrow> Inr (dict_set results ''metrics'' (PyDict (dict_set d k v)))
       | _ \<Rightarrow> Inl TypeError)"

definition evaluate ::
  "(pyvalue \<rightharpoonup> error) \<Rightarrow> RouteEvaluator \<Rightarrow> model \<Rightarrow> RouteDataset \<Rightarrow> error + pydict" where
  "evaluate faults self model dataset =
     (let results = [(''model_name'', PyStr (model_name model)),
                     (''dataset_size'', PyInt (int (len dataset))),
                     (''metrics'', PyDict [])]
      in bind (predict_loop faults self model (routes dataset) [] [])
           (\<lambda>(predictions, ground_truths).
         bind (set_metric results ''accuracy''
                 (PyFloat (compute_accuracy self predictions ground_truths))) (\<lambda>results.
         bind (set_metric results ''spatial_accuracy''
                 (PyFloat (compute_spatial_accuracy self predictions ground_truths))) (\<lambda>results.
         bind (set_metric results ''route_deviation''
                 (PyFloat (compute_route_deviation self predictions ground_truths))) (\<lambda>results.
         bind (set_metric results ''semantic_similarity''
                 (PyFloat (compute_semantic_similarity self predictions ground_truths))) (\<lambda>results.
         bind (compute_by_difficulty self model dataset predictions ground_truths) (\<lambda>bd.
         bind (set_metric results ''by_difficulty'' (PyDict bd)) (\<lambda>results.
         bind (subscript results ''metrics'') (\<lambda>m.
         bind (case m of PyDict d \<Rightarrow> compute_overall_score self d | _ \<Rightarrow> Inl AttributeError) (\<lambda>score.
           Inr (dict_set results ''overall_score'' (PyFloat score))))))))))))"

text \<open>The convenience function \<open>evaluate_model\<close>, where \<open>config or {}\<close> replaces a missing configuration.\<close>

definition evaluate_model ::
  "(pyvalue \<rightharpoonup> error) \<Rightarrow> model \<Rightarrow> RouteDataset \<Rightarrow> pydict option \<Rightarrow> error + pydict" where
  "evaluate_model faults model dataset cfg =
     (let evaluator = init_RouteEvaluator (case cfg of None \<Rightarrow> [] | Some c \<Rightarrow> c)
      in evaluate faults evaluator model dataset)"


section \<open>Datasets as objects\<close>

text \<open>
  A \<open>RouteDataset\<close> is a mutable Python object, and the filter methods return a
  new one. To say what a call does to the objects that existed before it, the objects
  live in a store: a reference is a position in the list of all \<open>RouteDataset\<close>
  objects allocated so far, and constructing one appends it. The list comprehension of a
  filter method builds a new list, so no two datasets share a list; routes are never
  assigned to after construction and are stored by value.
\<close>

type_synonym ref = nat

type_synonym store = "RouteDataset list"

text \<open>The constructor call \<open>RouteDataset(routes)\<close>.\<close>

definition new_RouteDataset :: "store \<Rightarrow> Route list \<Rightarrow> ref \<times> store" where
  "new_RouteDataset h rs = (length h, h @ [\<lparr>routes = rs\<rparr>])"

definition filter_by_difficulty_obj :: "store \<Rightarrow> ref \<Rightarrow> string \<Rightarrow> ref \<times> store" where
  "filter_by_difficulty_obj h self d =
     (let filtered_routes = [route \<leftarrow> routes (h ! self). difficulty route = d]
      in new_RouteDataset h filtered_routes)"

definition filter_by_region_obj :: "store \<Rightarrow> ref \<Rightarrow> string \<Rightarrow> ref \<times> store" where
  "filter_by_region_obj h self rg =
     (let filtered_routes = [route \<leftarrow> routes (h ! self). region route = rg]
      in new_RouteDataset h filtered_routes)"

section \<open>A fixture of the test suite\<close>

text \<open>The route that \<open>TestEvaluator.setUp\<close> of \<open>tests/test_turnback.py\<close> builds.\<close>

definition test_route :: Route where
  "test_route =
     (let start_point = \<lparr>latitude = float_lit 40, longitude = float_neg (float_lit 74),
                          timestamp = None, RoutePoint.metadata = None\<rparr>;
          end_point = \<lparr>latitude = float_lit 41, longitude = float_neg (float_lit 73),
                        timestamp = None, RoutePoint.metadata = None\<rparr>
      in \<lparr>route_id = ''test_route'',
          points = [start_point, end_point],
          start_point = start_point,
          end_point = end_point,
          difficulty = ''easy'',
          region = ''Test Region'',
          metadata = None\<rparr>)"

section \<open>Facts about the float model\<close>

lemma bind_Inr [simp]: "bind (Inr x) f = f x"
  by (simp add: bind_def)

lemma bind_Inl [simp]: "bind (Inl e) f = Inl e"
  by (simp add: bind_def)

lemma pow2_powi: "pow2 e = 2 powi e"
  by (simp add: pow2_def power_int_def power_one_over inverse_eq_divide)

lemma pow2_pos: "0 < pow2 e"
  by (simp add: pow2_powi)

lemma pow2_diff: "pow2 (a - b) = pow2 a / pow2 b"
  by (simp add: pow2_powi power_int_diff)

lemma pow2_mono: "a \<le> b \<Longrightarrow> pow2 a \<le> pow2 b"
  by (simp add: pow2_powi power_int_increasing)

lemma pow2_nat: "0 \<le> e \<Longrightarrow> pow2 e = 2 ^ nat e"
  by (simp add: pow2_def)

lemma bitlen_bounds_rat:
  assumes "0 < p"
  shows "pow2 (bitlen p - 1) \<le> of_int p" and "of_int p < pow2 (bitlen p)"
proof -
  from assms have b1: "1 \<le> bitlen p"
    by (simp add: bitlen_alt_def)
  from bitlen_bounds [OF assms]
  have lo: "2 ^ nat (bitlen p - 1) \<le> p" and hi: "p < 2 ^ nat (bitlen p)"
    by simp_all
  have "(of_int (2 ^ nat (bitlen p - 1)) :: rat) \<le> of_int p"
    using lo by (simp only: of_int_le_iff)
  then show "pow2 (bitlen p - 1) \<le> of_int p"
    using b1 by (simp add: pow2_nat)
  have "(of_int p :: rat) < of_int (2 ^ nat (bitlen p))"
    using hi by (simp only: of_int_less_iff)
  then show "of_int p < pow2 (bitlen p)"
    using b1 by (simp add: pow2_nat)
qed

text \<open>\<open>binade\<close> finds the power of two at or below a non-zero rational.\<close>

lemma binade_bounds:
  assumes "x \<noteq> 0"
  shows "pow2 (binade x) \<le> \<bar>x\<bar> \<and> \<bar>x\<bar> < pow2 (binade x + 1)"
proof -
  define a where "a = \<bar>x\<bar>"
  obtain p q where pq: "quotient_of a = (p, q)" by (cases "quotient_of a")
  have a_pos: "0 < a" using assms by (simp add: a_def)
  have q_pos: "0 < q" using pq by (rule quotient_of_denom_pos)
  have a_eq: "a = of_int p / of_int q" using pq by (rule quotient_of_div)
  have p_pos: "0 < p"
    using a_pos q_pos by (simp add: a_eq zero_less_divide_iff)
  define d where "d = bitlen p - bitlen q"
  note bp = bitlen_bounds_rat [OF p_pos] and bq = bitlen_bounds_rat [OF q_pos]
  have qr: "(0::rat) < of_int q" using q_pos by simp
  have lower: "pow2 (d - 1) < a"
  proof -
    have "pow2 (d - 1) = pow2 (bitlen p - 1) / pow2 (bitlen q)"
      by (simp add: d_def pow2_diff [symmetric] algebra_simps)
    also have "\<dots> \<le> of_int p / pow2 (bitlen q)"
      using bp(1) pow2_pos [of "bitlen q"] by (simp add: divide_right_mono)
    also have "\<dots> < of_int p / of_int q"
      using bq(2) qr p_pos by (simp add: divide_strict_left_mono pow2_pos)
    finally show ?thesis by (simp add: a_eq)
  qed
  have upper: "a < pow2 (d + 1)"
  proof -
    have "a = of_int p / of_int q" by (rule a_eq)
    also have "\<dots> < pow2 (bitlen p) / of_int q"
      using bp(2) qr by (simp add: divide_strict_right_mono)
    also have "\<dots> \<le> pow2 (bitlen p) / pow2 (bitlen q - 1)"
      using bq(1) pow2_pos [of "bitlen q - 1"] pow2_pos [of "bitlen p"] qr
      by (simp add: divide_left_mono)
    also have "\<dots> = pow2 (d + 1)"
      by (simp add: d_def pow2_diff [symmetric] algebra_simps)
    finally show ?thesis .
  qed
  have b: "binade x = (if pow2 d \<le> a then d else d - 1)"
    by (simp add: binade_def Let_def a_def [symmetric] pq d_def)
  show ?thesis
  proof (cases "pow2 d \<le> a")
    case True
    with b upper show ?thesis by (simp add: a_def)
  next
    case False
    with b lower show ?thesis by (simp add: a_def)
  qed
qed

lemma binade_unique:
  assumes "pow2 e \<le> \<bar>x\<bar>" and "\<bar>x\<bar> < pow2 (e + 1)"
  shows "binade x = e"
proof -
  have "x \<noteq> 0" using assms(1) pow2_pos [of e] by auto
  from binade_bounds [OF this]
  have b1: "pow2 (binade x) \<le> \<bar>x\<bar>" and b2: "\<bar>x\<bar> < pow2 (binade x + 1)" by simp_all
  have "\<not> binade x + 1 \<le> e"
  proof
    assume "binade x + 1 \<le> e"
    then have "pow2 (binade x + 1) \<le> pow2 e" by (rule pow2_mono)
    with assms(1) b2 show False by simp
  qed
  moreover have "\<not> e + 1 \<le> binade x"
  proof
    assume "e + 1 \<le> binade x"
    then have "pow2 (e + 1) \<le> pow2 (binade x)" by (rule pow2_mono)
    with assms(2) b1 show False by simp
  qed
  ultimately show ?thesis by simp
qed

text \<open>Rounding in the normal range, once the binade of the argument is known.\<close>

lemma round_to_double_normal:
  assumes "pow2 e \<le> \<bar>x\<bar>" and "\<bar>x\<bar> < pow2 (e + 1)" and "- 1022 \<le> e" and "e < 1023"
  shows "round_to_double x =
           Finite (sgn x * (of_int (round_half_even (\<bar>x\<bar> / pow2 (e - 52))) * pow2 (e - 52)))"
proof -
  have "x \<noteq> 0" using assms(1) pow2_pos [of e] by auto
  moreover have "binade x = e" using assms(1,2) by (rule binade_unique)
  ultimately show ?thesis
    using assms(3,4) by (simp add: round_to_double_def Let_def max_def)
qed

lemma round_half_even_close: "\<bar>of_int (round_half_even z) - z\<bar> \<le> 1 / 2"
proof -
  have "of_int \<lfloor>z\<rfloor> \<le> z" and "z < of_int \<lfloor>z\<rfloor> + 1" by linarith+
  then show ?thesis
    by (auto simp: round_half_even_def Let_def)
qed

text \<open>
  The rounded value is a multiple of the unit in the last place of the binade and lies
  within half a unit of the argument.
\<close>

lemma round_to_double_close:
  assumes "pow2 e \<le> \<bar>x\<bar>" and "\<bar>x\<bar> < pow2 (e + 1)" and "- 1022 \<le> e" and "e < 1023"
  shows "\<exists>m. round_to_double x = Finite (of_int m * pow2 (e - 52)) \<and>
             \<bar>of_int m * pow2 (e - 52) - x\<bar> \<le> pow2 (e - 52) / 2"
proof -
  define u where "u = pow2 (e - 52)"
  define k where "k = round_half_even (\<bar>x\<bar> / u)"
  have u_pos: "0 < u" by (simp add: u_def pow2_pos)
  have r: "round_to_double x = Finite (sgn x * (of_int k * u))"
    using round_to_double_normal [OF assms] by (simp add: k_def u_def)
  have "\<bar>of_int k - \<bar>x\<bar> / u\<bar> \<le> 1 / 2"
    unfolding k_def by (rule round_half_even_close)
  then have "\<bar>of_int k - \<bar>x\<bar> / u\<bar> * u \<le> 1 / 2 * u"
    using u_pos by (simp add: mult_right_mono)
  moreover have "\<bar>of_int k - \<bar>x\<bar> / u\<bar> * u = \<bar>of_int k * u - \<bar>x\<bar>\<bar>"
  proof -
    have "\<bar>of_int k - \<bar>x\<bar> / u\<bar> * u = \<bar>(of_int k - \<bar>x\<bar> / u) * u\<bar>"
      using u_pos by (simp add: abs_mult)
    also have "(of_int k - \<bar>x\<bar> / u) * u = of_int k * u - \<bar>x\<bar>"
      using u_pos by (simp add: field_simps)
    finally show ?thesis .
  qed
  ultimately have close: "\<bar>of_int k * u - \<bar>x\<bar>\<bar> \<le> u / 2" by simp
  show ?thesis
  proof (cases "0 < x")
    case True
    with r close show ?thesis
      by (intro exI [of _ k]) (simp add: u_def)
  next
    case False
    with assms(1) pow2_pos [of e] have neg: "x < 0" by (cases "x = 0") auto
    have "\<bar>of_int (- k) * u - x\<bar> = \<bar>of_int k * u - \<bar>x\<bar>\<bar>"
      using neg by (simp add: abs_minus_commute)
    with r close neg show ?thesis
      by (intro exI [of _ "- k"]) (simp add: u_def)
  qed
qed

lemma floor_numeral_div:
  "\<lfloor>(numeral a :: rat) / numeral b\<rfloor> = numeral a div numeral b"
  using floor_divide_of_int_eq [of "numeral a" "numeral b", where ?'a = rat] by simp

lemma round_to_double_0: "round_to_double 0 = Finite 0"
  by (simp add: round_to_double_def)

lemmas round_to_double_binades =
  round_to_double_normal [where e = "- 7"] round_to_double_normal [where e = "- 6"]
  round_to_double_normal [where e = "- 5"] round_to_double_normal [where e = "- 4"]
  round_to_double_normal [where e = "- 3"] round_to_double_normal [where e = "- 2"]
  round_to_double_normal [where e = "- 1"] round_to_double_normal [where e = "0"]
  round_to_double_normal [where e = "1"] round_to_double_normal [where e = "2"]
  round_to_double_normal [where e = "3"] round_to_double_normal [where e = "4"]
  round_to_double_normal [where e = "5"] round_to_double_normal [where e = "6"]

lemmas float_eval =
  float_lit_def round_to_double_binades round_to_double_0 pow2_def round_half_even_def Let_def
  floor_numeral_div


text \<open>
  Checks of the model against values every IEEE 754 implementation gives: the double
  nearest to \<open>0.1\<close>, and the sum \<open>0.1 + 0.2\<close>, which is not the double nearest to
  \<open>0.3\<close>.
\<close>

lemma float_model_checks:
  "float_lit (1 / 10) = Finite (3602879701896397 / 36028797018963968)"
  "float_add (float_lit (1 / 10)) (float_lit (2 / 10)) = Finite (1351079888211149 / 4503599627370496)"
  "float_add (float_lit (1 / 10)) (float_lit (2 / 10)) \<noteq> float_lit (3 / 10)"
  by (simp_all add: float_eval)

section \<open>The evaluator returns the placeholder metrics\<close>

lemma float_consts:
  "float_times (float_lit (3 / 20)) (PyInt 0) = Inr (Finite 0)"
  "float_times (float_lit (3 / 20)) (PyInt 1) = Inr (float_lit (3 / 20))"
  "float_times (float_lit (3 / 20)) (PyInt 2) = Inr (float_lit (3 / 10))"
  "float_sub (float_lit (4 / 5)) (Finite 0) = float_lit (4 / 5)"
  "float_sub (float_lit (4 / 5)) (float_lit (3 / 20)) = float_lit (13 / 20)"
  "float_sub (float_lit (4 / 5)) (float_lit (3 / 10)) = float_lit (1 / 2)"
  by (simp_all add: float_eval float_times_def float_sub_def float_of_int_def)

lemma overall_score_const:
  "compute_overall_score self
     [(''accuracy'', PyFloat (float_lit (3 / 4))),
      (''spatial_accuracy'', PyFloat (float_lit (17 / 25))),
      (''route_deviation'', PyFloat (float_lit (5 / 2))),
      (''semantic_similarity'', PyFloat (float_lit (18 / 25))),
      (''by_difficulty'', bd)] = Inr (float_lit (723 / 1000))"
  by (simp add: compute_overall_score_def dict_get_def subscript_def float_eval float_times_def
      float_sub_def float_of_int_def max_0_def)

lemma predict_route_to_dict:
  "\<exists>p. predict faults model (route_to_dict self r) = Inr p"
  by (cases model) (simp_all add: route_to_dict_def point_to_dict_def dict_get_def)

lemma predict_loop_ok:
  "\<exists>ps. predict_loop faults self model rs preds gts = Inr (ps, gts @ rs)"
proof (induction rs arbitrary: preds gts)
  case Nil
  then show ?case by simp
next
  case (Cons r rs)
  obtain p where p: "predict faults model (route_to_dict self r) = Inr p"
    using predict_route_to_dict by blast
  from Cons [of "preds @ [p]" "gts @ [r]"] p show ?case by simp
qed

lemma by_difficulty_value:
  "compute_by_difficulty self model D ps gts =
     Inr [(''easy'', PyDict [(''accuracy'', PyFloat (if 0 < len (filter_by_difficulty D ''easy'')
                                                   then float_lit (4 / 5) else float_lit 0)),
                            (''count'', PyInt (int (len (filter_by_difficulty D ''easy''))))]),
          (''medium'', PyDict [(''accuracy'', PyFloat (if 0 < len (filter_by_difficulty D ''medium'')
                                                   then float_lit (13 / 20) else float_lit 0)),
                            (''count'', PyInt (int (len (filter_by_difficulty D ''medium''))))]),
          (''hard'', PyDict [(''accuracy'', PyFloat (if 0 < len (filter_by_difficulty D ''hard'')
                                                   then float_lit (1 / 2) else float_lit 0)),
                            (''count'', PyInt (int (len (filter_by_difficulty D ''hard''))))])]"
  by (simp add: compute_by_difficulty_def Let_def dict_set_def float_consts)

lemma evaluate_result:
  "evaluate faults self model D =
     Inr [(''model_name'', PyStr (model_name model)),
          (''dataset_size'', PyInt (int (len D))),
          (''metrics'', PyDict
             [(''accuracy'', PyFloat (float_lit (3 / 4))),
              (''spatial_accuracy'', PyFloat (float_lit (17 / 25))),
              (''route_deviation'', PyFloat (float_lit (5 / 2))),
              (''semantic_similarity'', PyFloat (float_lit (18 / 25))),
              (''by_difficulty'', PyDict
     [(''easy'', PyDict [(''accuracy'', PyFloat (if 0 < len (filter_by_difficulty D ''easy'')
                                                   then float_lit (4 / 5) else float_lit 0)),
                            (''count'', PyInt (int (len (filter_by_difficulty D ''easy''))))]),
          (''medium'', PyDict [(''accuracy'', PyFloat (if 0 < len (filter_by_difficulty D ''medium'')
                                                   then float_lit (13 / 20) else float_lit 0)),
                            (''count'', PyInt (int (len (filter_by_difficulty D ''medium''))))]),
          (''hard'', PyDict [(''accuracy'', PyFloat (if 0 < len (filter_by_difficulty D ''hard'')
                                                   then float_lit (1 / 2) else float_lit 0)),
                            (''count'', PyInt (int (len (filter_by_difficulty D ''hard''))))])])]),
          (''overall_score'', PyFloat (float_lit (723 / 1000)))]"
proof -
  obtain ps where ps: "predict_loop faults self model (routes D) [] [] = Inr (ps, routes D)"
    using predict_loop_ok [of faults self model "routes D" "[]" "[]"] by auto
  show ?thesis
    unfolding evaluate_def Let_def ps
    by (simp add: set_metric_def subscript_def dict_set_def compute_accuracy_def
        compute_spatial_accuracy_def compute_route_deviation_def compute_semantic_similarity_def
        by_difficulty_value overall_score_const)
qed

text \<open>
  Claim C1. For every model and every dataset, empty or not, \<open>evaluate\<close> returns, and
  the \<open>overall_score\<close> of its result is the float \<open>0.723\<close>. That value is
  \<open>round(0.3*0.75 + 0.3*0.68 + 0.2*0.72 + 0.2*max(0, 1 - 2.5/10), 3)\<close> in binary64
  arithmetic, where \<open>2.5/10\<close> is \<open>0.25\<close> and the normalised deviation is
  \<open>0.75\<close>. Neither the model nor the dataset occurs in it.
\<close>

theorem evaluate_overall_score:
  "(\<exists>res. evaluate faults self model D = Inr res \<and>
          map_of res ''overall_score'' = Some (PyFloat (float_lit (723 / 1000)))) \<and>
   float_truediv (float_lit (25 / 10)) (Finite 10) = Inr (float_lit (25 / 100)) \<and>
   max_0 (float_sub (Finite 1) (float_lit (25 / 100))) = PyFloat (float_lit (75 / 100)) \<and>
   float_round
     (float_add
        (float_add
           (float_add (float_mul (float_lit (3 / 10)) (float_lit (75 / 100)))
                      (float_mul (float_lit (3 / 10)) (float_lit (68 / 100))))
           (float_mul (float_lit (2 / 10)) (float_lit (72 / 100))))
        (float_mul (float_lit (2 / 10)) (float_lit (75 / 100)))) 3
     = float_lit (723 / 1000)"
proof -
  have "\<exists>res. evaluate faults self model D = Inr res \<and>
          map_of res ''overall_score'' = Some (PyFloat (float_lit (723 / 1000)))"
    by (simp add: evaluate_result)
  moreover have "float_truediv (float_lit (25 / 10)) (Finite 10) = Inr (float_lit (25 / 100))"
    by (simp add: float_eval)
  moreover have "max_0 (float_sub (Finite 1) (float_lit (25 / 100))) = PyFloat (float_lit (75 / 100))"
    by (simp add: float_eval max_0_def float_sub_def)
  moreover have "float_round
     (float_add
        (float_add
           (float_add (float_mul (float_lit (3 / 10)) (float_lit (75 / 100)))
                      (float_mul (float_lit (3 / 10)) (float_lit (68 / 100))))
           (float_mul (float_lit (2 / 10)) (float_lit (72 / 100))))
        (float_mul (float_lit (2 / 10)) (float_lit (75 / 100)))) 3
     = float_lit (723 / 1000)"
    by (simp add: float_eval)
  ultimately show ?thesis by blast
qed

theorem evaluate_overall_score_witness:
  "\<exists>res. evaluate Map.empty (init_RouteEvaluator []) (LLMModel ''test-model'' None [])
            \<lparr>routes = [test_route]\<rparr> = Inr res \<and>
          map_of res ''overall_score'' = Some (PyFloat (float_lit (723 / 1000)))"
  using evaluate_overall_score [of Map.empty "init_RouteEvaluator []" "LLMModel ''test-model'' None []"
      "\<lparr>routes = [test_route]\<rparr>"]
  by blast

text \<open>
  Claim C4. On a dataset without routes \<open>evaluate\<close> raises nothing and returns
  \<open>dataset_size\<close> 0, the four base metrics 0.75, 0.68, 2.5 and 0.72, the entry
  \<open>{accuracy: 0.0, count: 0}\<close> for each of the three difficulties, and the
  overall score 0.723, for every model.
\<close>

theorem evaluate_empty_dataset:
  "evaluate faults self model \<lparr>routes = []\<rparr> =
     Inr [(''model_name'', PyStr (model_name model)),
          (''dataset_size'', PyInt 0),
          (''metrics'', PyDict
             [(''accuracy'', PyFloat (float_lit (75 / 100))),
              (''spatial_accuracy'', PyFloat (float_lit (68 / 100))),
              (''route_deviation'', PyFloat (float_lit (25 / 10))),
              (''semantic_similarity'', PyFloat (float_lit (72 / 100))),
              (''by_difficulty'', PyDict
                 [(''easy'', PyDict [(''accuracy'', PyFloat (float_lit 0)), (''count'', PyInt 0)]),
                  (''medium'', PyDict [(''accuracy'', PyFloat (float_lit 0)), (''count'', PyInt 0)]),
                  (''hard'', PyDict [(''accuracy'', PyFloat (float_lit 0)), (''count'', PyInt 0)])])]),
          (''overall_score'', PyFloat (float_lit (723 / 1000)))]"
  by (simp add: evaluate_result len_def filter_by_difficulty_def)

text \<open>
  Claim C3. In the result of \<open>evaluate\<close>, \<open>metrics["by_difficulty"]\<close> has the
  keys easy, medium and hard. A difficulty whose filtered dataset is not empty gets
  \<open>accuracy = 0.80 - 0.15 * index\<close> and the size of the filtered dataset as
  \<open>count\<close>; an empty one gets \<open>{accuracy: 0.0, count: 0}\<close>. In binary64
  arithmetic the three accuracies are exactly the floats 0.80, 0.65 and 0.50.
\<close>

theorem evaluate_by_difficulty:
  "(\<exists>res m. evaluate faults self model D = Inr res \<and>
      map_of res ''metrics'' = Some (PyDict m) \<and>
      map_of m ''by_difficulty'' = Some (PyDict
        [(''easy'',
          if 0 < len (filter_by_difficulty D ''easy'')
          then PyDict [(''accuracy'', PyFloat (float_sub (float_lit (80 / 100))
                                                  (float_mul (float_lit (15 / 100)) (Finite 0)))),
                       (''count'', PyInt (int (len (filter_by_difficulty D ''easy''))))]
          else PyDict [(''accuracy'', PyFloat (float_lit 0)), (''count'', PyInt 0)]),
         (''medium'',
          if 0 < len (filter_by_difficulty D ''medium'')
          then PyDict [(''accuracy'', PyFloat (float_sub (float_lit (80 / 100))
                                                  (float_mul (float_lit (15 / 100)) (Finite 1)))),
                       (''count'', PyInt (int (len (filter_by_difficulty D ''medium''))))]
          else PyDict [(''accuracy'', PyFloat (float_lit 0)), (''count'', PyInt 0)]),
         (''hard'',
          if 0 < len (filter_by_difficulty D ''hard'')
          then PyDict [(''accuracy'', PyFloat (float_sub (float_lit (80 / 100))
                                                  (float_mul (float_lit (15 / 100)) (Finite 2)))),
                       (''count'', PyInt (int (len (filter_by_difficulty D ''hard''))))]
          else PyDict [(''accuracy'', PyFloat (float_lit 0)), (''count'', PyInt 0)])])) \<and>
   float_sub (float_lit (80 / 100)) (float_mul (float_lit (15 / 100)) (Finite 0)) = float_lit (80 / 100) \<and>
   float_sub (float_lit (80 / 100)) (float_mul (float_lit (15 / 100)) (Finite 1)) = float_lit (65 / 100) \<and>
   float_sub (float_lit (80 / 100)) (float_mul (float_lit (15 / 100)) (Finite 2)) = float_lit (50 / 100)"
proof -
  have e: "float_sub (float_lit (80 / 100)) (float_mul (float_lit (15 / 100)) (Finite 0)) = float_lit (80 / 100)"
    "float_sub (float_lit (80 / 100)) (float_mul (float_lit (15 / 100)) (Finite 1)) = float_lit (65 / 100)"
    "float_sub (float_lit (80 / 100)) (float_mul (float_lit (15 / 100)) (Finite 2)) = float_lit (50 / 100)"
    by (simp_all add: float_eval float_sub_def)
  show ?thesis
    unfolding e by (simp add: evaluate_result)
qed

theorem evaluate_by_difficulty_witness:
  "\<exists>res m. evaluate Map.empty (init_RouteEvaluator []) HumanBaselineModel
       \<lparr>routes = [test_route, test_route\<lparr>difficulty := ''medium''\<rparr>,
                  test_route\<lparr>difficulty := ''hard''\<rparr>]\<rparr> = Inr res \<and>
      map_of res ''metrics'' = Some (PyDict m) \<and>
      map_of m ''by_difficulty'' = Some (PyDict
        [(''easy'', PyDict [(''accuracy'', PyFloat (float_lit (80 / 100))), (''count'', PyInt 1)]),
         (''medium'', PyDict [(''accuracy'', PyFloat (float_lit (65 / 100))), (''count'', PyInt 1)]),
         (''hard'', PyDict [(''accuracy'', PyFloat (float_lit (50 / 100))), (''count'', PyInt 1)])])"
proof -
  have d: "difficulty test_route = ''easy''"
    by (simp add: test_route_def Let_def)
  show ?thesis
    using evaluate_by_difficulty [of Map.empty "init_RouteEvaluator []" HumanBaselineModel
        "\<lparr>routes = [test_route, test_route\<lparr>difficulty := ''medium''\<rparr>,
                   test_route\<lparr>difficulty := ''hard''\<rparr>]\<rparr>"]
    by (auto simp: len_def filter_by_difficulty_def d)
qed

section \<open>The sample dataset of \<open>load_dataset\<close>\<close>

lemma str_nat_digit: "n < 10 \<Longrightarrow> str_nat n = [''0123456789'' ! n]"
  by (subst str_nat.simps) simp

lemma replicate_2: "replicate 2 x = [x, x]"
  by (simp add: numeral_2_eq_2)

lemma replicate_10: "replicate 10 x = [x, x, x, x, x, x, x, x, x, x]"
  by (simp add: eval_nat_numeral)

lemma float_of_int_digit:
  "float_of_int 0 = Inr (Finite 0)" "float_of_int 1 = Inr (Finite 1)"
  "float_of_int 2 = Inr (Finite 2)" "float_of_int 3 = Inr (Finite 3)"
  "float_of_int 4 = Inr (Finite 4)" "float_of_int 5 = Inr (Finite 5)"
  "float_of_int 6 = Inr (Finite 6)" "float_of_int 7 = Inr (Finite 7)"
  "float_of_int 8 = Inr (Finite 8)" "float_of_int 9 = Inr (Finite 9)"
  by (simp_all add: float_of_int_def float_eval)


text \<open>
  Claim C2. For every name and every path, given or \<open>None\<close>, \<open>load_dataset\<close>
  returns a dataset of exactly ten routes: the ids are \<open>route_000\<close> to
  \<open>route_009\<close>; route \<open>i\<close> starts at latitude \<open>40.7128 + i*0.01\<close> and
  longitude \<open>-74.0060 + i*0.01\<close> and ends at latitude \<open>40.7228 + i*0.01\<close> and
  longitude \<open>-74.0160 + i*0.01\<close>, in binary64 arithmetic; its points are the start and
  the end; the difficulties cycle through easy, medium, hard; the region is New York and
  the metadata \<open>{"sample": True}\<close>. The function has the two arguments as its only
  inputs, there is no file for it to read, and the result is the same for any two calls.
\<close>

theorem load_dataset_sample:
  "(\<exists>rs. load_dataset dataset_name data_path = Inr \<lparr>routes = rs\<rparr> \<and>
      length rs = 10 \<and>
      map route_id rs =
        [''route_000'', ''route_001'', ''route_002'', ''route_003'', ''route_004'',
         ''route_005'', ''route_006'', ''route_007'', ''route_008'', ''route_009''] \<and>
      map (\<lambda>r. latitude (start_point r)) rs =
        map (\<lambda>i. float_add (float_lit (407128 / 10000))
                            (float_mul (Finite (of_nat i)) (float_lit (1 / 100)))) [0..<10] \<and>
      map (\<lambda>r. longitude (start_point r)) rs =
        map (\<lambda>i. float_add (float_neg (float_lit (740060 / 10000)))
                            (float_mul (Finite (of_nat i)) (float_lit (1 / 100)))) [0..<10] \<and>
      map (\<lambda>r. latitude (end_point r)) rs =
        map (\<lambda>i. float_add (float_lit (407228 / 10000))
                            (float_mul (Finite (of_nat i)) (float_lit (1 / 100)))) [0..<10] \<and>
      map (\<lambda>r. longitude (end_point r)) rs =
        map (\<lambda>i. float_add (float_neg (float_lit (740160 / 10000)))
                            (float_mul (Finite (of_nat i)) (float_lit (1 / 100)))) [0..<10] \<and>
      map points rs = map (\<lambda>r. [start_point r, end_point r]) rs \<and>
      map difficulty rs =
        [''easy'', ''medium'', ''hard'', ''easy'', ''medium'', ''hard'', ''easy'', ''medium'',
         ''hard'', ''easy''] \<and>
      map region rs = replicate 10 ''New York'' \<and>
      map Route.metadata rs = replicate 10 (Some [(''sample'', PyBool True)])) \<and>
   load_dataset dataset_name data_path = load_dataset other_name other_path"
proof -
  have "load_dataset dataset_name data_path = load_dataset other_name other_path"
    by (simp add: load_dataset_def)
  moreover have "\<exists>rs. load_dataset dataset_name data_path = Inr \<lparr>routes = rs\<rparr> \<and>
      length rs = 10 \<and>
      map route_id rs =
        [''route_000'', ''route_001'', ''route_002'', ''route_003'', ''route_004'',
         ''route_005'', ''route_006'', ''route_007'', ''route_008'', ''route_009''] \<and>
      map (\<lambda>r. latitude (start_point r)) rs =
        map (\<lambda>i. float_add (float_lit (407128 / 10000))
                            (float_mul (Finite (of_nat i)) (float_lit (1 / 100)))) [0..<10] \<and>
      map (\<lambda>r. longitude (start_point r)) rs =
        map (\<lambda>i. float_add (float_neg (float_lit (740060 / 10000)))
                            (float_mul (Finite (of_nat i)) (float_lit (1 / 100)))) [0..<10] \<and>
      map (\<lambda>r. latitude (end_point r)) rs =
        map (\<lambda>i. float_add (float_lit (407228 / 10000))
                            (float_mul (Finite (of_nat i)) (float_lit (1 / 100)))) [0..<10] \<and>
      map (\<lambda>r. longitude (end_point r)) rs =
        map (\<lambda>i. float_add (float_neg (float_lit (740160 / 10000)))
                            (float_mul (Finite (of_nat i)) (float_lit (1 / 100)))) [0..<10] \<and>
      map points rs = map (\<lambda>r. [start_point r, end_point r]) rs \<and>
      map difficulty rs =
        [''easy'', ''medium'', ''hard'', ''easy'', ''medium'', ''hard'', ''easy'', ''medium'',
         ''hard'', ''easy''] \<and>
      map region rs = replicate 10 ''New York'' \<and>
      map Route.metadata rs = replicate 10 (Some [(''sample'', PyBool True)])"
    by (simp add: load_dataset_def upt_rec sample_route_def float_of_int_digit format_03d_def
        str_nat_digit Let_def replicate_2 replicate_10)
  ultimately show ?thesis by blast
qed


theorem load_dataset_sample_witness:
  "\<exists>rs. load_dataset ''turnback_routes'' None = Inr \<lparr>routes = rs\<rparr> \<and> length rs = 10 \<and>
     latitude (start_point (rs ! 2)) = Finite (5732631965679905 / 140737488355328) \<and>
     latitude (start_point (rs ! 2)) \<noteq> float_lit (407328 / 10000) \<and>
     load_dataset ''turnback_routes'' None = load_dataset ''test_dataset'' (Some ''data'')"
proof -
  from load_dataset_sample [of "''turnback_routes''" None "''test_dataset''" "Some ''data''"]
  obtain rs where l: "load_dataset ''turnback_routes'' None = Inr \<lparr>routes = rs\<rparr>"
    and n: "length rs = 10"
    and lat: "map (\<lambda>r. latitude (start_point r)) rs =
        map (\<lambda>i. float_add (float_lit (407128 / 10000))
                            (float_mul (Finite (of_nat i)) (float_lit (1 / 100)))) [0..<10]"
    and e: "load_dataset ''turnback_routes'' None = load_dataset ''test_dataset'' (Some ''data'')"
    by (elim conjE exE)
  have "latitude (start_point (rs ! 2)) = map (\<lambda>r. latitude (start_point r)) rs ! 2"
    using n by simp
  also have "\<dots> = float_add (float_lit (407128 / 10000)) (float_mul (Finite 2) (float_lit (1 / 100)))"
    unfolding lat by simp
  also have "\<dots> = Finite (5732631965679905 / 140737488355328)"
    by (simp add: float_eval)
  finally have v: "latitude (start_point (rs ! 2)) = Finite (5732631965679905 / 140737488355328)" .
  have "Finite (5732631965679905 / 140737488355328) \<noteq> float_lit (407328 / 10000)"
    by (simp add: float_eval)
  with v have "latitude (start_point (rs ! 2)) \<noteq> float_lit (407328 / 10000)" by simp
  with l n v e show ?thesis by blast
qed

section \<open>Filtering and statistics of a dataset\<close>

text \<open>
  Claim C5. For every dataset and every string \<open>v\<close>, the routes of
  \<open>filter_by_difficulty\<close> all have difficulty \<open>v\<close>, are exactly the routes of
  the dataset with that difficulty, in the order they have there, and are no more than the
  dataset has; when no route matches, the result is the empty dataset. The method is total:
  it has no error to return. \<open>filter_by_region\<close> satisfies the same for the region.
\<close>

theorem filter_contract:
  "(\<forall>r \<in> set (routes (filter_by_difficulty D v)). difficulty r = v) \<and>
   subseq (routes (filter_by_difficulty D v)) (routes D) \<and>
   set (routes (filter_by_difficulty D v)) = {r \<in> set (routes D). difficulty r = v} \<and>
   len (filter_by_difficulty D v) \<le> len D \<and>
   ((\<forall>r \<in> set (routes D). difficulty r \<noteq> v) \<longrightarrow> routes (filter_by_difficulty D v) = []) \<and>
   (\<forall>r \<in> set (routes (filter_by_region D v)). region r = v) \<and>
   subseq (routes (filter_by_region D v)) (routes D) \<and>
   set (routes (filter_by_region D v)) = {r \<in> set (routes D). region r = v} \<and>
   len (filter_by_region D v) \<le> len D \<and>
   ((\<forall>r \<in> set (routes D). region r \<noteq> v) \<longrightarrow> routes (filter_by_region D v) = [])"
  by (auto simp: filter_by_difficulty_def filter_by_region_def len_def filter_empty_conv)

theorem filter_contract_witness:
  "routes (filter_by_difficulty \<lparr>routes = [test_route]\<rparr> ''hard'') = [] \<and>
   routes (filter_by_region \<lparr>routes = [test_route]\<rparr> ''New York'') = [] \<and>
   len (filter_by_difficulty \<lparr>routes = [test_route]\<rparr> ''easy'') \<le> 1 \<and>
   subseq (routes (filter_by_region \<lparr>routes = [test_route]\<rparr> ''Test Region'')) [test_route]"
proof -
  have d: "difficulty test_route = ''easy''" and r: "region test_route = ''Test Region''"
    by (simp_all add: test_route_def Let_def)
  have h1: "\<forall>r \<in> set (routes \<lparr>routes = [test_route]\<rparr>). difficulty r \<noteq> ''hard''"
    by (simp add: d)
  have h2: "\<forall>r \<in> set (routes \<lparr>routes = [test_route]\<rparr>). region r \<noteq> ''New York''"
    by (simp add: r)
  from filter_contract [of "\<lparr>routes = [test_route]\<rparr>" "''hard''"]
  have "(\<forall>r \<in> set (routes \<lparr>routes = [test_route]\<rparr>). difficulty r \<noteq> ''hard'') \<longrightarrow>
        routes (filter_by_difficulty \<lparr>routes = [test_route]\<rparr> ''hard'') = []"
    by (elim conjE)
  then have c1: "routes (filter_by_difficulty \<lparr>routes = [test_route]\<rparr> ''hard'') = []"
    using h1 by (rule mp)
  from filter_contract [of "\<lparr>routes = [test_route]\<rparr>" "''New York''"]
  have "(\<forall>r \<in> set (routes \<lparr>routes = [test_route]\<rparr>). region r \<noteq> ''New York'') \<longrightarrow>
        routes (filter_by_region \<lparr>routes = [test_route]\<rparr> ''New York'') = []"
    by (elim conjE)
  then have c2: "routes (filter_by_region \<lparr>routes = [test_route]\<rparr> ''New York'') = []"
    using h2 by (rule mp)
  from filter_contract [of "\<lparr>routes = [test_route]\<rparr>" "''easy''"]
  have "len (filter_by_difficulty \<lparr>routes = [test_route]\<rparr> ''easy'') \<le> len \<lparr>routes = [test_route]\<rparr>"
    by (elim conjE)
  then have c3: "len (filter_by_difficulty \<lparr>routes = [test_route]\<rparr> ''easy'') \<le> 1"
    by (simp add: len_def)
  from filter_contract [of "\<lparr>routes = [test_route]\<rparr>" "''Test Region''"]
  have "subseq (routes (filter_by_region \<lparr>routes = [test_route]\<rparr> ''Test Region''))
          (routes \<lparr>routes = [test_route]\<rparr>)"
    by (elim conjE)
  then have c4: "subseq (routes (filter_by_region \<lparr>routes = [test_route]\<rparr> ''Test Region'')) [test_route]"
    by simp
  from c1 c2 c3 c4 show ?thesis by (intro conjI)
qed

lemma count_list_filter: "count_list (map f xs) k = length [x \<leftarrow> xs. f x = k]"
  by (induction xs) auto

lemma sum_counts:
  "sum_list (map (\<lambda>k. length [r \<leftarrow> rs. f r = k]) (remdups (map f rs))) = length rs"
proof -
  have "sum_list (map (count_list (map f rs)) (remdups (map f rs)))
        = (\<Sum>x\<in>set (map f rs). count_list (map f rs) x)"
    by (simp add: sum_list_distinct_conv_sum_set)
  also have "\<dots> = length (map f rs)"
    by (rule sum_count_set) simp_all
  finally have "sum_list (map (count_list (map f rs)) (remdups (map f rs))) = length rs"
    by simp
  moreover have "(\<lambda>k. length [r \<leftarrow> rs. f r = k]) = count_list (map f rs)"
    by (rule ext) (simp add: count_list_filter)
  ultimately show ?thesis by simp
qed

lemma distribution_counts:
  "distribution (map f rs) =
     map (\<lambda>(k, c). (k, PyInt (int c)))
       (map (\<lambda>k. (k, length [r \<leftarrow> rs. f r = k])) (remdups (map f rs)))"
  by (simp add: distribution_def count_list_filter comp_def)

text \<open>
  Claim C6. \<open>get_statistics\<close> returns \<open>total_routes\<close> equal to the length of
  the dataset, and two distributions. The difficulty distribution has one key for each
  distinct difficulty that occurs, mapped to the number of routes with it, and its values
  sum to \<open>total_routes\<close>; likewise the region distribution.
\<close>

theorem get_statistics_totals:
  "\<exists>dc rc.
     get_statistics D =
       [(''total_routes'', PyInt (int (len D))),
        (''difficulty_distribution'', PyDict (map (\<lambda>(k, c). (k, PyInt (int c))) dc)),
        (''region_distribution'', PyDict (map (\<lambda>(k, c). (k, PyInt (int c))) rc))] \<and>
     distinct (map fst dc) \<and> set (map fst dc) = set (map difficulty (routes D)) \<and>
     (\<forall>(k, c) \<in> set dc. c = length [r \<leftarrow> routes D. difficulty r = k]) \<and>
     sum_list (map snd dc) = len D \<and>
     distinct (map fst rc) \<and> set (map fst rc) = set (map region (routes D)) \<and>
     (\<forall>(k, c) \<in> set rc. c = length [r \<leftarrow> routes D. region r = k]) \<and>
     sum_list (map snd rc) = len D"
proof -
  let ?dc = "map (\<lambda>k. (k, length [r \<leftarrow> routes D. difficulty r = k]))
               (remdups (map difficulty (routes D)))"
  let ?rc = "map (\<lambda>k. (k, length [r \<leftarrow> routes D. region r = k]))
               (remdups (map region (routes D)))"
  have sd: "sum_list (map snd ?dc) = len D"
    using sum_counts [of difficulty "routes D"] by (simp add: comp_def len_def)
  have sr: "sum_list (map snd ?rc) = len D"
    using sum_counts [of region "routes D"] by (simp add: comp_def len_def)
  have g: "get_statistics D =
       [(''total_routes'', PyInt (int (len D))),
        (''difficulty_distribution'', PyDict (map (\<lambda>(k, c). (k, PyInt (int c))) ?dc)),
        (''region_distribution'', PyDict (map (\<lambda>(k, c). (k, PyInt (int c))) ?rc))]"
    unfolding get_statistics_def Let_def distribution_counts len_def by simp
  have kd: "distinct (map fst ?dc)" "set (map fst ?dc) = set (map difficulty (routes D))"
    by (simp_all add: comp_def)
  have kr: "distinct (map fst ?rc)" "set (map fst ?rc) = set (map region (routes D))"
    by (simp_all add: comp_def)
  have cd: "\<forall>(k, c) \<in> set ?dc. c = length [r \<leftarrow> routes D. difficulty r = k]" by auto
  have cr: "\<forall>(k, c) \<in> set ?rc. c = length [r \<leftarrow> routes D. region r = k]" by auto
  from g kd cd sd kr cr sr show ?thesis by blast
qed

theorem get_statistics_totals_witness:
  "\<exists>dc rc.
     get_statistics \<lparr>routes = [test_route, test_route]\<rparr> =
       [(''total_routes'', PyInt 2),
        (''difficulty_distribution'', PyDict (map (\<lambda>(k, c). (k, PyInt (int c))) dc)),
        (''region_distribution'', PyDict (map (\<lambda>(k, c). (k, PyInt (int c))) rc))] \<and>
     sum_list (map snd dc) = 2 \<and> sum_list (map snd rc) = 2"
proof -
  have l: "len \<lparr>routes = [test_route, test_route]\<rparr> = 2"
    by (simp add: len_def)
  from get_statistics_totals [of "\<lparr>routes = [test_route, test_route]\<rparr>"]
  obtain dc rc where
    "get_statistics \<lparr>routes = [test_route, test_route]\<rparr> =
       [(''total_routes'', PyInt (int (len \<lparr>routes = [test_route, test_route]\<rparr>))),
        (''difficulty_distribution'', PyDict (map (\<lambda>(k, c). (k, PyInt (int c))) dc)),
        (''region_distribution'', PyDict (map (\<lambda>(k, c). (k, PyInt (int c))) rc))]"
    and "sum_list (map snd dc) = len \<lparr>routes = [test_route, test_route]\<rparr>"
    and "sum_list (map snd rc) = len \<lparr>routes = [test_route, test_route]\<rparr>"
    by (elim exE conjE)
  then show ?thesis
    unfolding l by (intro exI [of _ dc] exI [of _ rc]) simp
qed

section \<open>Filtering leaves the dataset as it was\<close>

text \<open>
  Claim C7. A call of \<open>filter_by_difficulty\<close> or \<open>filter_by_region\<close> on a
  dataset object returns a reference that did not exist before, and leaves every object
  that existed as it was: the dataset itself keeps its length, its routes and their order.
  The new object holds the filtered routes.
\<close>

theorem filter_frame:
  assumes "self < length h"
  shows "(case filter_by_difficulty_obj h self v of
            (r, h') \<Rightarrow> r \<noteq> self \<and> length h \<le> r \<and> h' ! self = h ! self \<and>
                       len (h' ! self) = len (h ! self) \<and> routes (h' ! self) = routes (h ! self) \<and>
                       take (length h) h' = h \<and> h' ! r = filter_by_difficulty (h ! self) v) \<and>
         (case filter_by_region_obj h self v of
            (r, h') \<Rightarrow> r \<noteq> self \<and> length h \<le> r \<and> h' ! self = h ! self \<and>
                       len (h' ! self) = len (h ! self) \<and> routes (h' ! self) = routes (h ! self) \<and>
                       take (length h) h' = h \<and> h' ! r = filter_by_region (h ! self) v)"
  using assms
  by (simp add: filter_by_difficulty_obj_def filter_by_region_obj_def new_RouteDataset_def
      filter_by_difficulty_def filter_by_region_def nth_append Let_def)

theorem filter_frame_witness:
  "(0::nat) < length [\<lparr>routes = [test_route]\<rparr>] \<and>
   (case filter_by_difficulty_obj [\<lparr>routes = [test_route]\<rparr>] 0 ''hard'' of
      (r, h') \<Rightarrow> r = 1 \<and> h' ! 0 = \<lparr>routes = [test_route]\<rparr> \<and> h' ! r = \<lparr>routes = []\<rparr>) \<and>
   (case filter_by_region_obj [\<lparr>routes = [test_route]\<rparr>] 0 ''Test Region'' of
      (r, h') \<Rightarrow> r = 1 \<and> h' ! 0 = \<lparr>routes = [test_route]\<rparr> \<and> h' ! r = \<lparr>routes = [test_route]\<rparr>)"
proof -
  have l: "(0::nat) < length [\<lparr>routes = [test_route]\<rparr>]" by simp
  have d: "difficulty test_route = ''easy''" and r: "region test_route = ''Test Region''"
    by (simp_all add: test_route_def Let_def)
  from filter_frame [OF l, of "''hard''"] filter_frame [OF l, of "''Test Region''"] l
  show ?thesis
    by (simp add: filter_by_difficulty_obj_def filter_by_region_obj_def new_RouteDataset_def
        filter_by_difficulty_def filter_by_region_def d r)
qed

section \<open>Indexing a dataset\<close>

text \<open>
  Claim C9, as amended. \<open>getitem D i\<close> returns the route at position \<open>i\<close> when
  \<open>0 \<le> i < n\<close>, the route at position \<open>n + i\<close> when \<open>-n \<le> i < 0\<close>, and
  fails with \<open>IndexError\<close> when \<open>i \<ge> n\<close> or \<open>i < -n\<close>. The error is the
  result of the method: nothing in it catches the fault.
\<close>

theorem getitem_cases:
  "(0 \<le> i \<and> i < int (len D) \<longrightarrow> getitem D i = Inr (routes D ! nat i)) \<and>
   (- int (len D) \<le> i \<and> i < 0 \<longrightarrow> getitem D i = Inr (routes D ! nat (int (len D) + i))) \<and>
   (i < - int (len D) \<or> int (len D) \<le> i \<longrightarrow> getitem D i = Inl IndexError)"
  by (auto simp: getitem_def len_def Let_def)

theorem getitem_cases_witness:
  "getitem \<lparr>routes = [test_route]\<rparr> 0 = Inr test_route \<and>
   getitem \<lparr>routes = [test_route]\<rparr> (- 1) = Inr test_route \<and>
   getitem \<lparr>routes = [test_route]\<rparr> 1 = Inl IndexError \<and>
   getitem \<lparr>routes = [test_route]\<rparr> (- 2) = Inl IndexError"
  using getitem_cases [of 0 "\<lparr>routes = [test_route]\<rparr>"]
    getitem_cases [of "- 1" "\<lparr>routes = [test_route]\<rparr>"]
    getitem_cases [of 1 "\<lparr>routes = [test_route]\<rparr>"]
    getitem_cases [of "- 2" "\<lparr>routes = [test_route]\<rparr>"]
  by (simp add: len_def)

text \<open>
  Read with positions \<open>0 .. n - 1\<close> as the bounds, claim C9 says that every other
  index fails. The index \<open>-1\<close> of a dataset of one route does not.
\<close>

theorem getitem_plain_reading_counterexample:
  "\<not> (0 \<le> (- 1 :: int) \<and> (- 1 :: int) < int (len \<lparr>routes = [test_route]\<rparr>)) \<and>
   getitem \<lparr>routes = [test_route]\<rparr> (- 1) = Inr test_route \<and>
   getitem \<lparr>routes = [test_route]\<rparr> (- 1) \<noteq> Inl IndexError"
  by (simp add: getitem_def len_def)

text \<open>
  Claim C10. For a dataset of \<open>n \<ge> 1\<close> routes and \<open>1 \<le> k \<le> n\<close>, the index
  \<open>-k\<close> does not fail and gives the route at position \<open>n - k\<close>. The method fails
  exactly when the index is \<open>\<ge> n\<close> or \<open>< -n\<close>, and then with
  \<open>IndexError\<close>.
\<close>

theorem getitem_negative:
  "(1 \<le> k \<and> k \<le> int (len D) \<longrightarrow> getitem D (- k) = Inr (routes D ! nat (int (len D) - k))) \<and>
   ((\<exists>e. getitem D i = Inl e) \<longleftrightarrow> int (len D) \<le> i \<or> i < - int (len D)) \<and>
   (\<forall>e. getitem D i = Inl e \<longrightarrow> e = IndexError)"
  by (auto simp: getitem_def len_def Let_def)

theorem getitem_negative_witness:
  "getitem \<lparr>routes = [test_route, test_route\<lparr>difficulty := ''hard''\<rparr>]\<rparr> (- 1)
     = Inr (test_route\<lparr>difficulty := ''hard''\<rparr>) \<and>
   getitem \<lparr>routes = [test_route, test_route\<lparr>difficulty := ''hard''\<rparr>]\<rparr> (- 2) = Inr test_route"
  using getitem_negative [of 1 "\<lparr>routes = [test_route, test_route\<lparr>difficulty := ''hard''\<rparr>]\<rparr>"]
    getitem_negative [of 2 "\<lparr>routes = [test_route, test_route\<lparr>difficulty := ''hard''\<rparr>]\<rparr>"]
  by (simp add: len_def)

section \<open>Predictions of the two models\<close>

lemma predict_llm_mappings:
  assumes "dict_get rd ''start_point'' (PyDict []) = PyDict sd"
    and "dict_get rd ''end_point'' (PyDict []) = PyDict ed"
    and "\<forall>v \<in> {dict_get sd ''latitude'' PyNone, dict_get sd ''longitude'' PyNone,
                 dict_get ed ''latitude'' PyNone, dict_get ed ''longitude'' PyNone,
                 dict_get rd ''route_id'' (PyStr ''unknown'')}.
           \<exists>f. format_value faults v = Inr f"
  shows "predict faults (LLMModel name api_key cfg) rd =
      Inr [(''predicted_route'', PyStr ''Sample prediction''),
           (''confidence'', PyFloat (float_lit (85 / 100))),
           (''reasoning'', PyStr ''This is a placeholder reasoning''),
           (''intermediate_points'', PyList [])]"
proof -
  from assms(3) obtain f1 f2 f3 f4 f5 where
    "format_value faults (dict_get sd ''latitude'' PyNone) = Inr f1"
    "format_value faults (dict_get sd ''longitude'' PyNone) = Inr f2"
    "format_value faults (dict_get ed ''latitude'' PyNone) = Inr f3"
    "format_value faults (dict_get ed ''longitude'' PyNone) = Inr f4"
    "format_value faults (dict_get rd ''route_id'' (PyStr ''unknown'')) = Inr f5"
    by auto
  then show ?thesis
    by (simp add: assms(1,2) Let_def)
qed

text \<open>
  Claim C8, as amended. \<open>HumanBaselineModel.predict\<close> returns its constant
  prediction for every \<open>route_data\<close>. \<open>LLMModel.predict\<close> returns its constant
  prediction for every \<open>route_data\<close> whose entries \<open>start_point\<close> and
  \<open>end_point\<close> are each missing or a mapping and in which the five values it
  formats, the four coordinates and the route id, can be formatted. That holds on every
  interpreter when these values are \<open>None\<close>, booleans, floats or strings, and so for
  every mapping that \<open>route_to_dict\<close> builds. On these inputs any two calls give
  equal predictions.
\<close>

theorem predict_constant:
  "predict faults HumanBaselineModel route_data =
     Inr [(''predicted_route'', PyStr ''Human baseline prediction''),
          (''confidence'', PyFloat (float_lit (90 / 100))),
          (''reasoning'', PyStr ''Human expert analysis''),
          (''intermediate_points'', PyList [])] \<and>
   ((\<exists>sd ed. dict_get route_data ''start_point'' (PyDict []) = PyDict sd \<and>
             dict_get route_data ''end_point'' (PyDict []) = PyDict ed \<and>
             (\<forall>v \<in> {dict_get sd ''latitude'' PyNone, dict_get sd ''longitude'' PyNone,
                     dict_get ed ''latitude'' PyNone, dict_get ed ''longitude'' PyNone,
                     dict_get route_data ''route_id'' (PyStr ''unknown'')}.
                \<exists>f. format_value faults v = Inr f)) \<longrightarrow>
    predict faults (LLMModel name api_key cfg) route_data =
      Inr [(''predicted_route'', PyStr ''Sample prediction''),
           (''confidence'', PyFloat (float_lit (85 / 100))),
           (''reasoning'', PyStr ''This is a placeholder reasoning''),
           (''intermediate_points'', PyList [])]) \<and>
   predict faults (LLMModel name api_key cfg) (route_to_dict self route) =
      Inr [(''predicted_route'', PyStr ''Sample prediction''),
           (''confidence'', PyFloat (float_lit (85 / 100))),
           (''reasoning'', PyStr ''This is a placeholder reasoning''),
           (''intermediate_points'', PyList [])]"
proof -
  have "predict faults (LLMModel name api_key cfg) (route_to_dict self route) =
      Inr [(''predicted_route'', PyStr ''Sample prediction''),
           (''confidence'', PyFloat (float_lit (85 / 100))),
           (''reasoning'', PyStr ''This is a placeholder reasoning''),
           (''intermediate_points'', PyList [])]"
    by (simp add: route_to_dict_def point_to_dict_def dict_get_def)
  moreover have "predict faults (LLMModel name api_key cfg) route_data =
      Inr [(''predicted_route'', PyStr ''Sample prediction''),
           (''confidence'', PyFloat (float_lit (85 / 100))),
           (''reasoning'', PyStr ''This is a placeholder reasoning''),
           (''intermediate_points'', PyList [])]"
    if "\<exists>sd ed. dict_get route_data ''start_point'' (PyDict []) = PyDict sd \<and>
             dict_get route_data ''end_point'' (PyDict []) = PyDict ed \<and>
             (\<forall>v \<in> {dict_get sd ''latitude'' PyNone, dict_get sd ''longitude'' PyNone,
                     dict_get ed ''latitude'' PyNone, dict_get ed ''longitude'' PyNone,
                     dict_get route_data ''route_id'' (PyStr ''unknown'')}.
                \<exists>f. format_value faults v = Inr f)"
    using that predict_llm_mappings [of route_data _ _ faults name api_key cfg]
    by (elim exE conjE)
  ultimately show ?thesis by simp
qed

text \<open>
  The witness is the input of \<open>test_model_prediction_format\<close> and the one of
  \<open>test_human_baseline_model\<close>; both format floats and strings only.
\<close>

theorem predict_constant_witness:
  "predict Map.empty (LLMModel ''test-model'' None [])
     [(''route_id'', PyStr ''test''),
      (''start_point'', PyDict [(''latitude'', PyFloat (float_lit 40)),
                                (''longitude'', PyFloat (float_neg (float_lit 74)))]),
      (''end_point'', PyDict [(''latitude'', PyFloat (float_lit 41)),
                              (''longitude'', PyFloat (float_neg (float_lit 73)))])] =
   predict Map.empty (LLMModel ''gpt-4'' (Some ''key'') [])
     [(''route_id'', PyStr ''test'')]"
proof -
  let ?faults = "Map.empty :: pyvalue \<rightharpoonup> error"
  let ?rd = "[(''route_id'', PyStr ''test''),
      (''start_point'', PyDict [(''latitude'', PyFloat (float_lit 40)),
                                (''longitude'', PyFloat (float_neg (float_lit 74)))]),
      (''end_point'', PyDict [(''latitude'', PyFloat (float_lit 41)),
                              (''longitude'', PyFloat (float_neg (float_lit 73)))])]"
  let ?rd' = "[(''route_id'', PyStr ''test'')]"
  have a: "\<exists>sd ed. dict_get ?rd ''start_point'' (PyDict []) = PyDict sd \<and>
             dict_get ?rd ''end_point'' (PyDict []) = PyDict ed \<and>
             (\<forall>v \<in> {dict_get sd ''latitude'' PyNone, dict_get sd ''longitude'' PyNone,
                     dict_get ed ''latitude'' PyNone, dict_get ed ''longitude'' PyNone,
                     dict_get ?rd ''route_id'' (PyStr ''unknown'')}.
                \<exists>f. format_value ?faults v = Inr f)"
    by (simp add: dict_get_def)
  have b: "\<exists>sd ed. dict_get ?rd' ''start_point'' (PyDict []) = PyDict sd \<and>
             dict_get ?rd' ''end_point'' (PyDict []) = PyDict ed \<and>
             (\<forall>v \<in> {dict_get sd ''latitude'' PyNone, dict_get sd ''longitude'' PyNone,
                     dict_get ed ''latitude'' PyNone, dict_get ed ''longitude'' PyNone,
                     dict_get ?rd' ''route_id'' (PyStr ''unknown'')}.
                \<exists>f. format_value ?faults v = Inr f)"
    by (simp add: dict_get_def)
  from predict_constant [of ?faults ?rd "''test-model''" None "[]" "init_RouteEvaluator []" test_route]
  have "(\<exists>sd ed. dict_get ?rd ''start_point'' (PyDict []) = PyDict sd \<and>
             dict_get ?rd ''end_point'' (PyDict []) = PyDict ed \<and>
             (\<forall>v \<in> {dict_get sd ''latitude'' PyNone, dict_get sd ''longitude'' PyNone,
                     dict_get ed ''latitude'' PyNone, dict_get ed ''longitude'' PyNone,
                     dict_get ?rd ''route_id'' (PyStr ''unknown'')}.
                \<exists>f. format_value ?faults v = Inr f)) \<longrightarrow>
    predict ?faults (LLMModel ''test-model'' None []) ?rd =
      Inr [(''predicted_route'', PyStr ''Sample prediction''),
           (''confidence'', PyFloat (float_lit (85 / 100))),
           (''reasoning'', PyStr ''This is a placeholder reasoning''),
           (''intermediate_points'', PyList [])]"
    by (elim conjE)
  then have c: "predict ?faults (LLMModel ''test-model'' None []) ?rd =
      Inr [(''predicted_route'', PyStr ''Sample prediction''),
           (''confidence'', PyFloat (float_lit (85 / 100))),
           (''reasoning'', PyStr ''This is a placeholder reasoning''),
           (''intermediate_points'', PyList [])]"
    using a by (rule mp)
  from predict_constant [of ?faults ?rd' "''gpt-4''" "Some ''key''" "[]" "init_RouteEvaluator []"
      test_route]
  have "(\<exists>sd ed. dict_get ?rd' ''start_point'' (PyDict []) = PyDict sd \<and>
             dict_get ?rd' ''end_point'' (PyDict []) = PyDict ed \<and>
             (\<forall>v \<in> {dict_get sd ''latitude'' PyNone, dict_get sd ''longitude'' PyNone,
                     dict_get ed ''latitude'' PyNone, dict_get ed ''longitude'' PyNone,
                     dict_get ?rd' ''route_id'' (PyStr ''unknown'')}.
                \<exists>f. format_value ?faults v = Inr f)) \<longrightarrow>
    predict ?faults (LLMModel ''gpt-4'' (Some ''key'') []) ?rd' =
      Inr [(''predicted_route'', PyStr ''Sample prediction''),
           (''confidence'', PyFloat (float_lit (85 / 100))),
           (''reasoning'', PyStr ''This is a placeholder reasoning''),
           (''intermediate_points'', PyList [])]"
    by (elim conjE)
  then have d: "predict ?faults (LLMModel ''gpt-4'' (Some ''key'') []) ?rd' =
      Inr [(''predicted_route'', PyStr ''Sample prediction''),
           (''confidence'', PyFloat (float_lit (85 / 100))),
           (''reasoning'', PyStr ''This is a placeholder reasoning''),
           (''intermediate_points'', PyList [])]"
    using b by (rule mp)
  from c d show ?thesis by (rule trans [OF _ sym])
qed

text \<open>
  Claim C8 as stated, for every mapping, fails for \<open>LLMModel\<close>: with
  \<open>{"route_id": "test", "start_point": None}\<close> the prompt cannot be built, because
  \<open>None\<close> has no method \<open>get\<close>, and \<open>predict\<close> raises
  \<open>AttributeError\<close> on every interpreter, here one on which formatting never fails.
\<close>

theorem predict_llm_counterexample:
  "predict Map.empty (LLMModel ''test-model'' None [])
     [(''route_id'', PyStr ''test''), (''start_point'', PyNone)] = Inl AttributeError \<and>
   predict Map.empty (LLMModel ''test-model'' None [])
     [(''route_id'', PyStr ''test''), (''start_point'', PyNone)]
     \<noteq> predict Map.empty (LLMModel ''test-model'' None []) [(''route_id'', PyStr ''test'')]"
  by (simp add: dict_get_def)

text \<open>
  Where the interpreter refuses to format a value, \<open>LLMModel.predict\<close> raises what
  the interpreter raises: for a route id while building the log message, for a coordinate
  while building the prompt. \<open>HumanBaselineModel.predict\<close> formats nothing.
\<close>

lemma predict_format_fault:
  assumes "faults (PyInt n) = Some ValueError"
  shows "predict faults (LLMModel name api_key cfg) [(''route_id'', PyInt n)] = Inl ValueError"
    and "predict faults (LLMModel name api_key cfg)
           [(''start_point'', PyDict [(''latitude'', PyInt n)])] = Inl ValueError"
    and "\<exists>p. predict faults HumanBaselineModel [(''route_id'', PyInt n)] = Inr p"
  using assms by (simp_all add: dict_get_def)

end
